theory Spec2Isabelle
  imports Complex_Main "HOL-Library.Multiset"
begin

section \<open>JavaScript values\<close>

text \<open>
  The add-on is TypeScript compiled for Google Apps Script. Everything the fetch client
  touches at run time is a JavaScript value that came out of \<^verbatim>\<open>JSON.parse\<close>
  or out of a spreadsheet cell, so the embedding works on an explicit value type.

  A number is either \<^verbatim>\<open>NaN\<close> or finite. Finite doubles are idealised as reals:
  the code only multiplies small integers, subtracts millisecond timestamps (where the
  sign of the difference is exact) and compares with constants.
\<close>

datatype jsnum = NaN | Fin real

datatype jsval =
    JUndefined
  | JNull
  | JBool bool
  | JNum jsnum
  | JStr string
  | JArr "jsval list"
  | JObj "(string \<times> jsval) list"
  | JDate jsnum

text \<open>Exceptions: \<^verbatim>\<open>throw new Error(m)\<close> keeps the value handed to the
  constructor (the constructor itself would stringify it); a property read on
  \<^verbatim>\<open>null\<close>/\<^verbatim>\<open>undefined\<close> or a call of a non-function is a
  \<^verbatim>\<open>TypeError\<close>.\<close>

datatype exn = Error jsval | TypeError

text \<open>Truthiness, as tested by \<^verbatim>\<open>if (v)\<close>, \<^verbatim>\<open>!v\<close>, \<^verbatim>\<open>v || w\<close>
  and \<^verbatim>\<open>v ? a : b\<close>.\<close>

fun truthy :: "jsval \<Rightarrow> bool" where
  "truthy JUndefined = False"
| "truthy JNull = False"
| "truthy (JBool b) = b"
| "truthy (JNum NaN) = False"
| "truthy (JNum (Fin x)) = (x \<noteq> 0)"
| "truthy (JStr s) = (s \<noteq> [])"
| "truthy (JArr xs) = True"
| "truthy (JObj kvs) = True"
| "truthy (JDate t) = True"

fun nullish :: "jsval \<Rightarrow> bool" where
  "nullish JUndefined = True"
| "nullish JNull = True"
| "nullish v = False"

text \<open>\<^verbatim>\<open>v.k\<close> on a value that is neither null nor undefined. Only the names
  \<^verbatim>\<open>error, code, message, dataset, data, seriesId, status, scalar, date, value\<close>
  are read by the code; none of them is inherited from a built-in prototype, so a
  primitive or an array answers \<^verbatim>\<open>undefined\<close>.\<close>

fun get_prop :: "jsval \<Rightarrow> string \<Rightarrow> jsval" where
  "get_prop (JObj kvs) k = (case map_of kvs k of Some v \<Rightarrow> v | None \<Rightarrow> JUndefined)"
| "get_prop v k = JUndefined"

text \<open>Optional chaining \<^verbatim>\<open>v?.k\<close>.\<close>

definition opt_chain :: "jsval \<Rightarrow> string \<Rightarrow> jsval" where
  "opt_chain v k = (if nullish v then JUndefined else get_prop v k)"

text \<open>\<^verbatim>\<open>o.k = v\<close> on an object built by the code itself.\<close>

fun set_prop :: "jsval \<Rightarrow> string \<Rightarrow> jsval \<Rightarrow> jsval" where
  "set_prop (JObj kvs) k v =
     (if k \<in> fst ` set kvs then JObj (map (\<lambda>(k', v'). if k' = k then (k', v) else (k', v')) kvs)
      else JObj (kvs @ [(k, v)]))"
| "set_prop w k v = w"

text \<open>\<^verbatim>\<open>a[i]\<close> on an array.\<close>

definition index :: "jsval list \<Rightarrow> nat \<Rightarrow> jsval" where
  "index xs i = (if i < length xs then xs ! i else JUndefined)"

section \<open>The host platform\<close>

text \<open>
  One HTTP response, with the three accessors the code calls.
\<close>

record http_response =
  getResponseCode :: int
  getContentText :: string
  getAllHeaders :: "(string \<times> jsval) list"

text \<open>
  The built-ins and host services the code calls are not part of the repository. They
  are collected in one record that every operation receives:
  the stored credential (\<^verbatim>\<open>PropertiesService ... getProperty(API_KEY_PROP)\<close>,
  \<^verbatim>\<open>null\<close> is \<open>None\<close>), the server (the response to the \<open>n\<close>-th outbound call
  of one fetch), \<^verbatim>\<open>JSON.parse\<close> (\<open>None\<close> when it throws), \<^verbatim>\<open>Number\<close>,
  \<^verbatim>\<open>Date.parse\<close>, \<^verbatim>\<open>Date.now\<close>, \<^verbatim>\<open>new Date(v).getTime()\<close>,
  \<^verbatim>\<open>encodeURIComponent\<close>, \<^verbatim>\<open>String\<close>, \<^verbatim>\<open>trim\<close>,
  \<^verbatim>\<open>toLowerCase\<close>, and the two date formatters. Every outbound call is answered
  by an HTTP response: a call that fails without one (no network, a timeout) is not
  modelled.
\<close>

record platform =
  getProperty_API_KEY :: "string option"
  UrlFetchApp_fetch :: "nat \<Rightarrow> http_response"
  JSON_parse :: "string \<Rightarrow> jsval option"
  Number_of :: "string \<Rightarrow> jsnum"
  Date_parse :: "string \<Rightarrow> jsnum"
  Date_now :: real
  Date_getTime :: "jsval \<Rightarrow> jsnum"
  encodeURIComponent :: "string \<Rightarrow> string"
  String_of :: "jsval \<Rightarrow> string"
  trim :: "string \<Rightarrow> string"
  toLowerCase :: "string \<Rightarrow> string"
  has_Utilities :: bool
  Utilities_formatDate :: "real \<Rightarrow> string"
  toISOString :: "real \<Rightarrow> string"

section \<open>Helpers shared by both API variants\<close>

text \<open>\<^verbatim>\<open>mapError\<close> (lines 506-516 and 1200-1210, identical). The code and the
  fallback come from the parsed body, so they are arbitrary values.\<close>

definition mapError :: "jsval \<Rightarrow> int \<Rightarrow> jsval \<Rightarrow> jsval" where
  "mapError code status fallback =
     (if code = JStr ''NO_KEY'' then JStr ''Please open DataSetIQ sidebar to connect.''
      else if code = JStr ''INVALID_KEY''
        then JStr ''Invalid API Key. Reconnect at datasetiq.com/dashboard/api-keys''
      else if code = JStr ''REVOKED_KEY''
        then JStr ''API Key revoked. Get a new key at datasetiq.com/dashboard/api-keys''
      else if code = JStr ''FREE_LIMIT''
        then JStr ''Free plan limit reached. Upgrade at datasetiq.com/pricing''
      else if code = JStr ''QUOTA_EXCEEDED''
        then JStr ''Daily Quota Exceeded. Upgrade at datasetiq.com/pricing''
      else if code = JStr ''PLAN_REQUIRED''
        then JStr ''Upgrade required. Visit datasetiq.com/pricing''
      else if status = 429 then JStr ''Rate limited. Please retry shortly.''
      else if status \<ge> 500 then JStr ''Server unavailable. Please retry.''
      else if truthy fallback then fallback
      else JStr ''Unable to fetch data.'')"

text \<open>\<^verbatim>\<open>parseJson\<close>: the \<^verbatim>\<open>catch\<close> turns a parse failure into \<^verbatim>\<open>{}\<close>.\<close>

definition parseJson :: "platform \<Rightarrow> string \<Rightarrow> jsval" where
  "parseJson P body = (case JSON_parse P body of Some v \<Rightarrow> v | None \<Rightarrow> JObj [])"

definition getApiKey :: "platform \<Rightarrow> string option" where
  "getApiKey P = getProperty_API_KEY P"

text \<open>Truthiness of a \<^verbatim>\<open>string | null\<close> or \<^verbatim>\<open>string | undefined\<close>.\<close>

fun truthy_str :: "string option \<Rightarrow> bool" where
  "truthy_str None = False"
| "truthy_str (Some s) = (s \<noteq> [])"

text \<open>\<^verbatim>\<open>normalizeHeaders\<close>: keys are visited in order and a later key overwrites an
  earlier one with the same lower-case form.\<close>

definition normalizeHeaders :: "platform \<Rightarrow> (string \<times> jsval) list \<Rightarrow> (string \<rightharpoonup> string)" where
  "normalizeHeaders P headers =
     foldl (\<lambda>normalized (key, v). normalized(toLowerCase P key \<mapsto> String_of P v)) Map.empty headers"

text \<open>\<^verbatim>\<open>500 * Math.pow(2, attempt)\<close>, which the function spells out three times.\<close>

definition backoff :: "nat \<Rightarrow> jsnum" where
  "backoff attempt = Fin (500 * 2 ^ attempt)"

text \<open>\<^verbatim>\<open>computeRetryAfter\<close> (lines 538-552 and 1232-1246, identical). A header
  that is missing or the empty string is falsy.\<close>

definition computeRetryAfter :: "platform \<Rightarrow> (string \<rightharpoonup> string) \<Rightarrow> nat \<Rightarrow> jsnum" where
  "computeRetryAfter P headers attempt =
     (case headers ''retry-after'' of
        None \<Rightarrow> backoff attempt
      | Some retryAfter \<Rightarrow>
          if retryAfter \<noteq> [] then
            (case Number_of P retryAfter of
               Fin asNumber \<Rightarrow> Fin (asNumber * 1000)
             | NaN \<Rightarrow>
                (case Date_parse P retryAfter of
                   Fin parsed \<Rightarrow>
                     (let diff = parsed - Date_now P in
                      if diff > 0 then Fin diff else backoff attempt)
                 | NaN \<Rightarrow> backoff attempt))
          else backoff attempt)"

section \<open>Requests\<close>

record fetch_options =
  mode :: string
  freq :: "string option"
  start :: "string option"
  date :: "string option"

text \<open>\<^verbatim>\<open>URLFetchRequestOptions\<close>, as \<^verbatim>\<open>fetchSeries\<close> fills it (\<open>http_method\<close> is its
  key \<^verbatim>\<open>method\<close>).\<close>

record request_options =
  http_method :: string
  muteHttpExceptions :: bool
  headers :: "(string \<times> string) list"

text \<open>\<^verbatim>\<open>params.join('&')\<close>.\<close>

fun join :: "string \<Rightarrow> string list \<Rightarrow> string" where
  "join sep [] = []"
| "join sep [x] = x"
| "join sep (x # y # ys) = x @ sep @ join sep (y # ys)"

text \<open>\<^verbatim>\<open>if (v) params.push(`name=${encodeURIComponent(v)}`)\<close>.\<close>

definition push_if :: "platform \<Rightarrow> string \<Rightarrow> string option \<Rightarrow> string list" where
  "push_if P name v =
     (case v of
        None \<Rightarrow> []
      | Some s \<Rightarrow> if s \<noteq> [] then [name @ ''='' @ encodeURIComponent P s] else [])"

subsection \<open>The newer variant (lines 586-1436)\<close>

definition BASE_URL :: string where
  "BASE_URL = ''https://datasetiq.com''"

definition SERIES_PATH :: string where
  "SERIES_PATH = ''/api/public/series/''"

definition SERIES_DATA_PATH :: string where
  "SERIES_DATA_PATH = ''/data''"

text \<open>The query parameters of a data-mode request, in the order they are pushed
  (lines 1072-1076).\<close>

definition params :: "platform \<Rightarrow> fetch_options \<Rightarrow> string list" where
  "params P options =
     push_if P ''start'' (start options) @
     push_if P ''end'' (date options) @
     [''limit='' @ (if truthy_str (getApiKey P) then ''1000'' else ''100'')]"

text \<open>The variable \<^verbatim>\<open>url\<close> after lines 1067-1080.\<close>

definition url :: "platform \<Rightarrow> string \<Rightarrow> fetch_options \<Rightarrow> string" where
  "url P seriesId options =
     (let isMetaMode = (mode options = ''meta'');
          u = BASE_URL @ SERIES_PATH @ encodeURIComponent P seriesId
      in if \<not> isMetaMode then
           (let u1 = u @ SERIES_DATA_PATH
            in if length (params P options) > 0
               then u1 @ ''?'' @ join ''&'' (params P options)
               else u1)
         else u)"

text \<open>The variable \<^verbatim>\<open>request\<close> (lines 1082-1086; lines 413-417 are the same).\<close>

definition request :: "platform \<Rightarrow> request_options" where
  "request P =
     \<lparr> http_method = ''get'', muteHttpExceptions = True,
       headers = (case getApiKey P of
                    None \<Rightarrow> []
                  | Some key \<Rightarrow> if key \<noteq> [] then [(''Authorization'', ''Bearer '' @ key)] else []) \<rparr>"

section \<open>Response normalization\<close>

text \<open>The arrow function \<^verbatim>\<open>(obs) => [obs.date, obs.value]\<close> of line 1104, on an
  element that is neither null nor undefined.\<close>

definition to_row :: "jsval \<Rightarrow> jsval" where
  "to_row obs = JArr [get_prop obs ''date'', get_prop obs ''value'']"

text \<open>\<^verbatim>\<open>body.data.map(...)\<close> with that function. Reading a property of a
  \<^verbatim>\<open>null\<close> element throws.\<close>

fun map_obs :: "jsval list \<Rightarrow> exn + jsval list" where
  "map_obs [] = Inr []"
| "map_obs (obs # rest) =
     (if nullish obs then Inl TypeError
      else (case map_obs rest of
              Inl e \<Rightarrow> Inl e
            | Inr rows \<Rightarrow> Inr (to_row obs # rows)))"

text \<open>\<^verbatim>\<open>row[1]\<close> for a row of \<^verbatim>\<open>dataArray\<close>.\<close>

fun second :: "jsval \<Rightarrow> jsval" where
  "second (JArr xs) = index xs 1"
| "second v = JUndefined"

text \<open>
  The success branch of the newer \<^verbatim>\<open>fetchSeries\<close> (lines 1097-1121), which computes
  \<^verbatim>\<open>transformedResponse\<close> from the mode and the parsed body. A body that is
  \<^verbatim>\<open>null\<close> makes \<^verbatim>\<open>body.dataset\<close> or \<^verbatim>\<open>body.data\<close> throw; a truthy
  \<^verbatim>\<open>body.data\<close> that is not an array has no \<^verbatim>\<open>map\<close> to call.
\<close>

definition transformedResponse :: "string \<Rightarrow> jsval \<Rightarrow> exn + jsval" where
  "transformedResponse md body =
     (if nullish body then Inl TypeError
      else if md = ''meta'' \<and> truthy (get_prop body ''dataset'')
        then Inr (JObj [(''dataset'', get_prop body ''dataset'')])
      else if truthy (get_prop body ''data'') then
        (case get_prop body ''data'' of
           JArr observations \<Rightarrow>
             (case map_obs observations of
                Inl e \<Rightarrow> Inl e
              | Inr dataArray \<Rightarrow>
                 (let t = JObj [(''data'', JArr dataArray),
                                (''seriesId'', get_prop body ''seriesId''),
                                (''status'', get_prop body ''status''),
                                (''message'', get_prop body ''message'')]
                  in if md = ''latest'' \<and> length dataArray > 0
                       then Inr (set_prop t ''scalar'' (second (index dataArray (length dataArray - 1))))
                     else if md = ''value'' \<and> length dataArray > 0
                       then Inr (set_prop t ''scalar'' (second (index dataArray 0)))
                     else Inr t))
         | _ \<Rightarrow> Inl TypeError)
      else Inr body)"

text \<open>The two payload shapes of one logical observation (a date and a value): the pair of
  \<^verbatim>\<open>data?: Array<[string, number]>\<close> (line 25) and the object of
  \<^verbatim>\<open>data?: Array<{ date: string; value: number }>\<close> (line 606).\<close>

definition pair_form :: "string \<times> jsnum \<Rightarrow> jsval" where
  "pair_form ob = JArr [JStr (fst ob), JNum (snd ob)]"

definition object_form :: "string \<times> jsnum \<Rightarrow> jsval" where
  "object_form ob = JObj [(''date'', JStr (fst ob)), (''value'', JNum (snd ob))]"

section \<open>Transport with retry\<close>

text \<open>What \<^verbatim>\<open>fetchSeries\<close> returns: \<^verbatim>\<open>{ response?, errorMessage? }\<close>, an
  absent field being \<^verbatim>\<open>undefined\<close>.\<close>

record fetch_result =
  response :: jsval
  errorMessage :: jsval

text \<open>What one fetch does to the world: the outbound calls it issued, in order, and
  the pauses it took (\<^verbatim>\<open>Utilities.sleep\<close>).\<close>

record effects =
  calls :: "(string \<times> request_options) list"
  sleeps :: "jsnum list"

text \<open>The two tests of the loop body (lines 427/431 and 1096/1125).\<close>

definition is_success :: "int \<Rightarrow> jsval \<Rightarrow> bool" where
  "is_success status body = (status \<ge> 200 \<and> status < 300 \<and> \<not> truthy (opt_chain body ''error''))"

definition retryable :: "int \<Rightarrow> bool" where
  "retryable status = (status = 429 \<or> status \<ge> 500)"

text \<open>
  The loop \<^verbatim>\<open>while (attempt < 2)\<close> (lines 419-444 and 1088-1138). The two variants
  differ in the success branch only, which is the parameter \<open>on_success\<close>. The response
  to a call is the platform's answer to the call with that index.
\<close>

function attempts ::
  "(jsval \<Rightarrow> exn + jsval) \<Rightarrow> platform \<Rightarrow> string \<Rightarrow> request_options \<Rightarrow> nat \<Rightarrow> effects
     \<Rightarrow> (exn + fetch_result) \<times> effects" where
  "attempts on_success P u rq attempt eff =
     (if attempt < 2 then
        (let resp = UrlFetchApp_fetch P (length (calls eff));
             eff1 = eff\<lparr>calls := calls eff @ [(u, rq)]\<rparr>;
             status = getResponseCode resp;
             body = parseJson P (getContentText resp);
             hs = normalizeHeaders P (getAllHeaders resp)
         in if is_success status body then
              (case on_success body of
                 Inl e \<Rightarrow> (Inl e, eff1)
               | Inr t \<Rightarrow> (Inr \<lparr>response = t, errorMessage = JUndefined\<rparr>, eff1))
            else if attempt = 0 \<and> retryable status then
              attempts on_success P u rq (attempt + 1)
                (eff1\<lparr>sleeps := sleeps eff1 @ [computeRetryAfter P hs attempt]\<rparr>)
            else
              (Inr \<lparr>response = JUndefined,
                    errorMessage = mapError (opt_chain (opt_chain body ''error'') ''code'') status
                                     (opt_chain (opt_chain body ''error'') ''message'')\<rparr>, eff1))
      else (Inr \<lparr>response = JUndefined,
                 errorMessage = JStr ''Unable to reach DataSetIQ. Please try again.''\<rparr>, eff))"
  by pat_completeness auto
termination
  by (relation "measure (\<lambda>(on_success, P, u, rq, attempt, eff). 2 - attempt)") auto

declare attempts.simps [simp del]

text \<open>The newer \<^verbatim>\<open>fetchSeries\<close> (lines 1058-1139).\<close>

definition fetchSeries :: "platform \<Rightarrow> string \<Rightarrow> fetch_options \<Rightarrow> (exn + fetch_result) \<times> effects" where
  "fetchSeries P seriesId options =
     attempts (transformedResponse (mode options)) P (url P seriesId options) (request P) 0
       \<lparr>calls = [], sleeps = []\<rparr>"

text \<open>The local variables of the loop body for the call with index \<open>n\<close> (counting
  from 0): \<^verbatim>\<open>status\<close>, \<^verbatim>\<open>body\<close> and \<^verbatim>\<open>headers\<close>.\<close>

definition status_of :: "platform \<Rightarrow> nat \<Rightarrow> int" where
  "status_of P n = getResponseCode (UrlFetchApp_fetch P n)"

definition body_of :: "platform \<Rightarrow> nat \<Rightarrow> jsval" where
  "body_of P n = parseJson P (getContentText (UrlFetchApp_fetch P n))"

definition headers_of :: "platform \<Rightarrow> nat \<Rightarrow> (string \<rightharpoonup> string)" where
  "headers_of P n = normalizeHeaders P (getAllHeaders (UrlFetchApp_fetch P n))"

text \<open>The two ways the loop body returns.\<close>

definition success_return :: "(jsval \<Rightarrow> exn + jsval) \<Rightarrow> jsval \<Rightarrow> exn + fetch_result" where
  "success_return on_success body =
     (case on_success body of
        Inl e \<Rightarrow> Inl e
      | Inr t \<Rightarrow> Inr \<lparr>response = t, errorMessage = JUndefined\<rparr>)"

definition error_return :: "int \<Rightarrow> jsval \<Rightarrow> exn + fetch_result" where
  "error_return status body =
     Inr \<lparr>response = JUndefined,
          errorMessage = mapError (opt_chain (opt_chain body ''error'') ''code'') status
                           (opt_chain (opt_chain body ''error'') ''message'')\<rparr>"

text \<open>The index of the last call one fetch issues: 1 when the first response is
  neither a success nor final, 0 otherwise.\<close>

definition final_attempt :: "platform \<Rightarrow> nat" where
  "final_attempt P =
     (if \<not> is_success (status_of P 0) (body_of P 0) \<and> retryable (status_of P 0) then 1 else 0)"

subsection \<open>The older variant (lines 1-583)\<close>

definition SERIES_PATH_v1 :: string where
  "SERIES_PATH_v1 = ''/api/public/sheets/series/''"

text \<open>\<^verbatim>\<open>params\<close> as a list of key/value pairs in insertion order, which is the order
  \<^verbatim>\<open>Object.keys\<close> visits them in (lines 402-406).\<close>

definition set_if :: "string \<Rightarrow> string option \<Rightarrow> (string \<times> string) list" where
  "set_if name v = (case v of None \<Rightarrow> [] | Some s \<Rightarrow> if s \<noteq> [] then [(name, s)] else [])"

definition params_v1 :: "fetch_options \<Rightarrow> (string \<times> string) list" where
  "params_v1 options =
     set_if ''mode'' (Some (mode options)) @ set_if ''freq'' (freq options) @
     set_if ''start'' (start options) @ set_if ''date'' (date options)"

definition url_v1 :: "platform \<Rightarrow> string \<Rightarrow> fetch_options \<Rightarrow> string" where
  "url_v1 P seriesId options =
     (let query = join ''&'' (map (\<lambda>(k, v). encodeURIComponent P k @ ''='' @ encodeURIComponent P v)
                                (params_v1 options))
      in BASE_URL @ SERIES_PATH_v1 @ encodeURIComponent P seriesId @
         (if query \<noteq> [] then ''?'' @ query else []))"

text \<open>The older \<^verbatim>\<open>fetchSeries\<close> (lines 397-445): a successful body is returned as
  it is.\<close>

definition fetchSeries_v1 :: "platform \<Rightarrow> string \<Rightarrow> fetch_options \<Rightarrow> (exn + fetch_result) \<times> effects" where
  "fetchSeries_v1 P seriesId options =
     attempts Inr P (url_v1 P seriesId options) (request P) 0 \<lparr>calls = [], sleeps = []\<rparr>"

section \<open>Input normalization\<close>

definition normalizeOptionalString :: "platform \<Rightarrow> jsval \<Rightarrow> string option" where
  "normalizeOptionalString P v =
     (case v of
        JNull \<Rightarrow> None
      | JUndefined \<Rightarrow> None
      | JStr s \<Rightarrow> (let trimmed = trim P s in if length trimmed \<noteq> 0 then Some trimmed else None)
      | _ \<Rightarrow> Some (String_of P v))"

definition normalizeSeriesId :: "platform \<Rightarrow> jsval \<Rightarrow> exn + string" where
  "normalizeSeriesId P seriesId =
     (case normalizeOptionalString P seriesId of
        None \<Rightarrow> Inl (Error (JStr ''series_id is required.''))
      | Some normalized \<Rightarrow>
          if normalized = [] then Inl (Error (JStr ''series_id is required.''))
          else Inr normalized)"

text \<open>A spreadsheet date cell arrives as a \<^verbatim>\<open>Date\<close> object, \<open>JDate\<close> with its time
  value. \<^verbatim>\<open>slice(0, 10)\<close> keeps the first ten characters.\<close>

definition normalizeDateInput :: "platform \<Rightarrow> jsval \<Rightarrow> exn + string option" where
  "normalizeDateInput P v =
     (if v = JNull \<or> v = JUndefined \<or> v = JStr [] then Inr None
      else (case v of
              JDate t \<Rightarrow>
                (case t of
                   NaN \<Rightarrow> Inl (Error (JStr ''Invalid date.''))
                 | Fin ms \<Rightarrow>
                     if has_Utilities P then Inr (Some (Utilities_formatDate P ms))
                     else Inr (Some (take 10 (toISOString P ms))))
            | JStr s \<Rightarrow> Inr (Some s)
            | _ \<Rightarrow> Inl (Error (JStr ''Invalid date input.''))))"

section \<open>Table builder\<close>

definition HEADER_ROW :: jsval where
  "HEADER_ROW = JArr [JStr ''Date'', JStr ''Value'']"

text \<open>
  \<^verbatim>\<open>Array.prototype.sort\<close> with a comparator is the platform's. ECMAScript asks it
  to be stable and to read a comparator result of \<^verbatim>\<open>NaN\<close> as 0; an element moves
  behind another one only when the comparator says "greater". The insertion sort below
  does that. For a comparator that is a consistent ordering every conforming
  implementation returns the same array.
\<close>

fun positive :: "jsnum \<Rightarrow> bool" where
  "positive NaN = False"
| "positive (Fin x) = (x > 0)"

fun insert_sorted :: "('a \<Rightarrow> 'a \<Rightarrow> jsnum) \<Rightarrow> 'a \<Rightarrow> 'a list \<Rightarrow> 'a list" where
  "insert_sorted cmp x [] = [x]"
| "insert_sorted cmp x (y # ys) =
     (if positive (cmp x y) then y # insert_sorted cmp x ys else x # y # ys)"

definition Array_sort :: "('a \<Rightarrow> 'a \<Rightarrow> jsnum) \<Rightarrow> 'a list \<Rightarrow> 'a list" where
  "Array_sort cmp xs = foldr (insert_sorted cmp) xs []"

text \<open>Subtraction of two numbers.\<close>

fun minus_num :: "jsnum \<Rightarrow> jsnum \<Rightarrow> jsnum" where
  "minus_num (Fin x) (Fin y) = Fin (x - y)"
| "minus_num x y = NaN"

text \<open>\<^verbatim>\<open>a[0]\<close> on a value that is neither null nor undefined.\<close>

fun first :: "jsval \<Rightarrow> jsval" where
  "first (JArr xs) = index xs 0"
| "first (JStr s) = (case s of [] \<Rightarrow> JUndefined | c # cs \<Rightarrow> JStr [c])"
| "first (JObj kvs) = get_prop (JObj kvs) ''0''"
| "first v = JUndefined"

text \<open>\<^verbatim>\<open>new Date(a[0]).getTime()\<close>, and the comparator of lines 1148-1152 (and
  454-458).\<close>

definition row_time :: "platform \<Rightarrow> jsval \<Rightarrow> jsnum" where
  "row_time P a = Date_getTime P (first a)"

definition by_date :: "platform \<Rightarrow> jsval \<Rightarrow> jsval \<Rightarrow> jsnum" where
  "by_date P a b =
     (let aDate = row_time P a; bDate = row_time P b in minus_num bDate aDate)"

text \<open>\<^verbatim>\<open>x >= y\<close> on numbers, and the time value of a number that is not
  \<^verbatim>\<open>NaN\<close>.\<close>

fun ge_num :: "jsnum \<Rightarrow> jsnum \<Rightarrow> bool" where
  "ge_num (Fin x) (Fin y) = (x \<ge> y)"
| "ge_num x y = False"

fun time_value :: "jsnum \<Rightarrow> real" where
  "time_value (Fin x) = x"
| "time_value NaN = 0"

text \<open>
  \<^verbatim>\<open>buildArrayResult\<close> (lines 450-460 and 1144-1154, identical). The sort keeps
  \<^verbatim>\<open>undefined\<close> elements out of the comparisons and puts them last; among two or
  more other elements each one is handed to the comparator, where \<^verbatim>\<open>a[0]\<close> throws
  on \<^verbatim>\<open>null\<close>.
\<close>

definition buildArrayResult :: "platform \<Rightarrow> jsval \<Rightarrow> exn + jsval list" where
  "buildArrayResult P data =
     (case data of
        JArr rows \<Rightarrow>
          (let defined = filter (\<lambda>r. r \<noteq> JUndefined) rows;
               holes = filter (\<lambda>r. r = JUndefined) rows
           in if length defined \<ge> 2 \<and> JNull \<in> set defined then Inl TypeError
              else Inr (HEADER_ROW # Array_sort (by_date P) defined @ holes))
      | _ \<Rightarrow> Inr [HEADER_ROW])"

section \<open>Entry points of the newer variant\<close>

text \<open>\<^verbatim>\<open>handleScalar\<close> (lines 1043-1053).\<close>

definition handleScalar :: "platform \<Rightarrow> jsval \<Rightarrow> fetch_options \<Rightarrow> exn + jsval" where
  "handleScalar P seriesId opts =
     (case normalizeSeriesId P seriesId of
        Inl e \<Rightarrow> Inl e
      | Inr series \<Rightarrow>
          (case fst (fetchSeries P series opts) of
             Inl e \<Rightarrow> Inl e
           | Inr r \<Rightarrow>
               if truthy (errorMessage r) then Inl (Error (errorMessage r))
               else if opt_chain (response r) ''scalar'' = JUndefined
                 then Inl (Error (JStr ''Value not available.''))
               else Inr (get_prop (response r) ''scalar'')))"

definition DSIQ_LATEST :: "platform \<Rightarrow> jsval \<Rightarrow> exn + jsval" where
  "DSIQ_LATEST P seriesId =
     handleScalar P seriesId \<lparr>mode = ''latest'', freq = None, start = None, date = None\<rparr>"

definition DSIQ_VALUE :: "platform \<Rightarrow> jsval \<Rightarrow> jsval \<Rightarrow> exn + jsval" where
  "DSIQ_VALUE P seriesId d =
     (case normalizeDateInput P d of
        Inl e \<Rightarrow> Inl e
      | Inr normalizedDate \<Rightarrow>
          if \<not> truthy_str normalizedDate then Inl (Error (JStr ''Date is required for DSIQ_VALUE.''))
          else handleScalar P seriesId
                 \<lparr>mode = ''value'', freq = None, start = None, date = normalizedDate\<rparr>)"

definition DSIQ_YOY :: "platform \<Rightarrow> jsval \<Rightarrow> exn + jsval" where
  "DSIQ_YOY P seriesId =
     handleScalar P seriesId \<lparr>mode = ''yoy'', freq = None, start = None, date = None\<rparr>"

text \<open>\<^verbatim>\<open>data.length >= 100\<close> (line 712) for the value \<^verbatim>\<open>response?.data ?? []\<close>.
  From the newer \<^verbatim>\<open>fetchSeries\<close> this is the array it built, the default
  \<^verbatim>\<open>[]\<close>, or a falsy value of the body (a truthy value that is not an array made
  \<^verbatim>\<open>fetchSeries\<close> throw): an array or a string has a length, the other values
  have none and \<^verbatim>\<open>undefined >= 100\<close> is false.\<close>

fun length_at_least :: "jsval \<Rightarrow> nat \<Rightarrow> bool" where
  "length_at_least (JArr xs) n = (length xs \<ge> n)"
| "length_at_least (JStr s) n = (length s \<ge> n)"
| "length_at_least v n = False"

text \<open>The three rows of lines 713-715. The notice starts with the bytes the source file
  holds in front of the text.\<close>

definition BLANK_ROW :: jsval where
  "BLANK_ROW = JArr [JStr [], JStr []]"

definition NOTICE_ROW :: jsval where
  "NOTICE_ROW =
     JArr [JStr (map char_of [0xC3, 0xA2, 0xC5, 0xA1, 0xC2, 0xA0, 0xC3, 0xAF, 0xC2, 0xB8 :: nat]
                 @ '' Free tier limited to 100 most recent observations''), JStr []]"

definition UPGRADE_ROW :: jsval where
  "UPGRADE_ROW = JArr [JStr ''Upgrade for full access: datasetiq.com/pricing'', JStr []]"

text \<open>\<^verbatim>\<open>DSIQ\<close> (lines 695-719).\<close>

definition DSIQ :: "platform \<Rightarrow> jsval \<Rightarrow> jsval \<Rightarrow> jsval \<Rightarrow> exn + jsval list" where
  "DSIQ P seriesId frequency startDate =
     (case normalizeSeriesId P seriesId of
        Inl e \<Rightarrow> Inl e
      | Inr series \<Rightarrow>
         (let fr = normalizeOptionalString P frequency in
          case normalizeDateInput P startDate of
            Inl e \<Rightarrow> Inl e
          | Inr st \<Rightarrow>
             (case fst (fetchSeries P series \<lparr>mode = ''table'', freq = fr, start = st, date = None\<rparr>) of
                Inl e \<Rightarrow> Inl e
              | Inr r \<Rightarrow>
                 if truthy (errorMessage r) then Inl (Error (errorMessage r))
                 else
                   (let d0 = opt_chain (response r) ''data'';
                        data = (if nullish d0 then JArr [] else d0)
                    in case buildArrayResult P data of
                         Inl e \<Rightarrow> Inl e
                       | Inr result \<Rightarrow>
                           if \<not> truthy_str (getApiKey P) \<and> length_at_least data 100
                           then Inr (result @ [BLANK_ROW, NOTICE_ROW, UPGRADE_ROW])
                           else Inr result))))"

section \<open>The stored credential\<close>

text \<open>\<^verbatim>\<open>saveApiKey\<close> and \<^verbatim>\<open>clearApiKey\<close> (lines 770-786) are the only writers of
  the stored key.\<close>

definition saveApiKey :: "platform \<Rightarrow> jsval \<Rightarrow> exn + platform" where
  "saveApiKey P key =
     (case normalizeOptionalString P key of
        None \<Rightarrow> Inl (Error (JStr ''API key is required.''))
      | Some trimmed \<Rightarrow>
          if trimmed = [] then Inl (Error (JStr ''API key is required.''))
          else Inr (P\<lparr>getProperty_API_KEY := Some trimmed\<rparr>))"

definition clearApiKey :: "platform \<Rightarrow> platform" where
  "clearApiKey P = P\<lparr>getProperty_API_KEY := None\<rparr>"

section \<open>A stand-in platform for concrete runs\<close>

text \<open>
  To run the operations on concrete inputs the examples below use this platform. It is
  given the stored key, the server and the table of bodies that parse as JSON (any other
  body makes \<^verbatim>\<open>JSON.parse\<close> throw). Its other fields agree with the built-ins on
  the strings the examples use: \<^verbatim>\<open>Number("2")\<close> is 2, the two ISO dates have their
  UTC time values in milliseconds, and the identifiers, header names and series ids of
  the examples are left alone by \<^verbatim>\<open>encodeURIComponent\<close>, \<^verbatim>\<open>trim\<close> and
  \<^verbatim>\<open>toLowerCase\<close>.
\<close>

definition test_time :: "jsval \<Rightarrow> jsnum" where
  "test_time v =
     (if v = JStr ''2024-01-01'' then Fin 1704067200000
      else if v = JStr ''2023-01-01'' then Fin 1672531200000
      else NaN)"

definition test_platform ::
  "string option \<Rightarrow> (nat \<Rightarrow> http_response) \<Rightarrow> (string \<rightharpoonup> jsval) \<Rightarrow> platform" where
  "test_platform key server json =
     \<lparr> getProperty_API_KEY = key,
       UrlFetchApp_fetch = server,
       JSON_parse = json,
       Number_of = (\<lambda>s. if s = ''2'' then Fin 2 else NaN),
       Date_parse = (\<lambda>s. NaN),
       Date_now = 0,
       Date_getTime = test_time,
       encodeURIComponent = (\<lambda>s. s),
       String_of = (\<lambda>v. case v of JStr s \<Rightarrow> s | _ \<Rightarrow> []),
       trim = (\<lambda>s. s),
       toLowerCase = (\<lambda>s. s),
       has_Utilities = True,
       Utilities_formatDate = (\<lambda>t. []),
       toISOString = (\<lambda>t. []) \<rparr>"

text \<open>A server that answers the first call with one response and every later call with
  another, and one that always gives the same answer.\<close>

definition two_responses :: "http_response \<Rightarrow> http_response \<Rightarrow> nat \<Rightarrow> http_response" where
  "two_responses r0 r1 n = (if n = 0 then r0 else r1)"

definition always :: "http_response \<Rightarrow> nat \<Rightarrow> http_response" where
  "always r n = r"

definition ok_response :: "string \<Rightarrow> http_response" where
  "ok_response text = \<lparr>getResponseCode = 200, getContentText = text, getAllHeaders = []\<rparr>"

text \<open>A body of the newer shape with two observations, oldest first.\<close>

definition two_observations :: jsval where
  "two_observations =
     JObj [(''data'', JArr [JObj [(''date'', JStr ''2023-01-01''), (''value'', JNum (Fin 290))],
                            JObj [(''date'', JStr ''2024-01-01''), (''value'', JNum (Fin 300.1))]])]"

text \<open>A body with an empty observation list.\<close>

definition no_observations :: jsval where
  "no_observations = JObj [(''data'', JArr [])]"

text \<open>A body of the newer shape with a hundred observations, and the same two
  observations as above in the older shape.\<close>

definition hundred_observations :: jsval where
  "hundred_observations =
     JObj [(''data'', JArr (replicate 100 (object_form (''2024-01-01'', Fin 1))))]"

definition two_pairs :: jsval where
  "two_pairs = JObj [(''data'', JArr [pair_form (''2023-01-01'', Fin 290),
                                      pair_form (''2024-01-01'', Fin 300.1)])]"

section \<open>Error translation\<close>

lemma mapError_truthy: "truthy (mapError code status fallback)"
  by (simp add: mapError_def)

text \<open>
  C5. For every status and every fallback, the code \<^verbatim>\<open>REVOKED_KEY\<close> gives the
  fixed "API Key revoked" message, and so does each of the other five codes give its own
  message; for any other code the status 429 wins over a status of 500 or more, which
  wins over a truthy fallback, and without one the message is "Unable to fetch data.".
\<close>

theorem mapError_priority:
  "mapError (JStr ''REVOKED_KEY'') status fallback =
       JStr ''API Key revoked. Get a new key at datasetiq.com/dashboard/api-keys''
   \<and> mapError (JStr ''NO_KEY'') status fallback = JStr ''Please open DataSetIQ sidebar to connect.''
   \<and> mapError (JStr ''INVALID_KEY'') status fallback =
       JStr ''Invalid API Key. Reconnect at datasetiq.com/dashboard/api-keys''
   \<and> mapError (JStr ''FREE_LIMIT'') status fallback =
       JStr ''Free plan limit reached. Upgrade at datasetiq.com/pricing''
   \<and> mapError (JStr ''QUOTA_EXCEEDED'') status fallback =
       JStr ''Daily Quota Exceeded. Upgrade at datasetiq.com/pricing''
   \<and> mapError (JStr ''PLAN_REQUIRED'') status fallback =
       JStr ''Upgrade required. Visit datasetiq.com/pricing''
   \<and> (code \<notin> JStr ` {''NO_KEY'', ''INVALID_KEY'', ''REVOKED_KEY'', ''FREE_LIMIT'',
                       ''QUOTA_EXCEEDED'', ''PLAN_REQUIRED''} \<longrightarrow>
        mapError code status fallback =
          (if status = 429 then JStr ''Rate limited. Please retry shortly.''
           else if status \<ge> 500 then JStr ''Server unavailable. Please retry.''
           else if truthy fallback then fallback
           else JStr ''Unable to fetch data.''))"
  by (simp add: mapError_def)

theorem mapError_priority_witness:
  "mapError (JStr ''REVOKED_KEY'') 503 (JStr ''boom'') =
       JStr ''API Key revoked. Get a new key at datasetiq.com/dashboard/api-keys''
   \<and> mapError (JStr ''UNKNOWN'') 429 (JStr ''boom'') = JStr ''Rate limited. Please retry shortly.''"
  using mapError_priority [of 503 "JStr ''boom''"]
        mapError_priority [of 429 "JStr ''boom''" "JStr ''UNKNOWN''"]
  by simp

section \<open>Transport with retry: what one fetch does\<close>

text \<open>Unfolding the loop: it runs its body once or twice.\<close>

lemma attempts_run:
  "attempts on_success P u rq 0 \<lparr>calls = [], sleeps = []\<rparr> =
     (if is_success (status_of P 0) (body_of P 0) then
        (success_return on_success (body_of P 0), \<lparr>calls = [(u, rq)], sleeps = []\<rparr>)
      else if retryable (status_of P 0) then
        (if is_success (status_of P 1) (body_of P 1)
         then success_return on_success (body_of P 1)
         else error_return (status_of P 1) (body_of P 1),
         \<lparr>calls = [(u, rq), (u, rq)], sleeps = [computeRetryAfter P (headers_of P 0) 0]\<rparr>)
      else (error_return (status_of P 0) (body_of P 0), \<lparr>calls = [(u, rq)], sleeps = []\<rparr>))"
  apply (subst attempts.simps)
  apply (subst attempts.simps)
  apply (simp add: Let_def status_of_def body_of_def headers_of_def success_return_def
      error_return_def split: sum.splits)
  done

lemma attempts_outcome:
  "fst (attempts on_success P u rq 0 \<lparr>calls = [], sleeps = []\<rparr>) =
     (if is_success (status_of P (final_attempt P)) (body_of P (final_attempt P))
      then success_return on_success (body_of P (final_attempt P))
      else error_return (status_of P (final_attempt P)) (body_of P (final_attempt P)))"
  by (simp add: attempts_run final_attempt_def)

lemma attempts_calls:
  "calls (snd (attempts on_success P u rq 0 \<lparr>calls = [], sleeps = []\<rparr>)) =
     replicate (final_attempt P + 1) (u, rq)"
  by (simp add: attempts_run final_attempt_def)

lemma retryable_not_success: "retryable status \<Longrightarrow> \<not> is_success status body"
  by (auto simp: retryable_def is_success_def)

text \<open>
  C1. Whatever the server answers, the newer \<^verbatim>\<open>fetchSeries\<close> issues a second call
  exactly when the first status is 429 or at least 500 and the first attempt was not a
  success; it issues one or two calls, never a third; and when the second status is
  again 429 or at least 500 it returns the error message for the second response after
  two calls and one pause.
\<close>

theorem fetchSeries_retries_at_most_once:
  "(length (calls (snd (fetchSeries P seriesId options))) = 2 \<longleftrightarrow>
      (status_of P 0 = 429 \<or> status_of P 0 \<ge> 500) \<and> \<not> is_success (status_of P 0) (body_of P 0))
   \<and> (length (calls (snd (fetchSeries P seriesId options))) = 1
        \<or> length (calls (snd (fetchSeries P seriesId options))) = 2)
   \<and> ((status_of P 0 = 429 \<or> status_of P 0 \<ge> 500) \<and> (status_of P 1 = 429 \<or> status_of P 1 \<ge> 500) \<longrightarrow>
        fetchSeries P seriesId options =
          (error_return (status_of P 1) (body_of P 1),
           \<lparr>calls = [(url P seriesId options, request P), (url P seriesId options, request P)],
             sleeps = [computeRetryAfter P (headers_of P 0) 0]\<rparr>))"
proof -
  let ?run = "fetchSeries P seriesId options"
  have n: "length (calls (snd ?run)) = final_attempt P + 1"
    by (simp add: fetchSeries_def attempts_calls)
  have r: "retryable (status_of P 0) \<longleftrightarrow> status_of P 0 = 429 \<or> status_of P 0 \<ge> 500"
    by (simp add: retryable_def)
  have a: "length (calls (snd ?run)) = 2 \<longleftrightarrow>
      (status_of P 0 = 429 \<or> status_of P 0 \<ge> 500) \<and> \<not> is_success (status_of P 0) (body_of P 0)"
    unfolding n final_attempt_def r by auto
  have b: "length (calls (snd ?run)) = 1 \<or> length (calls (snd ?run)) = 2"
    unfolding n final_attempt_def by simp
  have c: "?run = (error_return (status_of P 1) (body_of P 1),
           \<lparr>calls = [(url P seriesId options, request P), (url P seriesId options, request P)],
             sleeps = [computeRetryAfter P (headers_of P 0) 0]\<rparr>)"
    if "status_of P 0 = 429 \<or> status_of P 0 \<ge> 500" "status_of P 1 = 429 \<or> status_of P 1 \<ge> 500"
  proof -
    from that have "retryable (status_of P 0)" "retryable (status_of P 1)"
      by (simp_all add: retryable_def)
    then show ?thesis
      by (simp add: fetchSeries_def attempts_run retryable_not_success)
  qed
  from a b c show ?thesis by blast
qed

text \<open>A 503 with \<^verbatim>\<open>retry-after: 2\<close> followed by a 429: two calls, one pause of
  2000 ms, and the rate-limit message.\<close>

theorem fetchSeries_retries_at_most_once_witness:
  "fetchSeries
     (test_platform None
        (two_responses
           \<lparr>getResponseCode = 503, getContentText = ''Bad gateway'',
             getAllHeaders = [(''retry-after'', JStr ''2'')]\<rparr>
           \<lparr>getResponseCode = 429, getContentText = ''slow down'', getAllHeaders = []\<rparr>)
        Map.empty)
     ''CPIAUCSL'' \<lparr>mode = ''latest'', freq = None, start = None, date = None\<rparr> =
   (Inr \<lparr>response = JUndefined, errorMessage = JStr ''Rate limited. Please retry shortly.''\<rparr>,
    \<lparr>calls = [(''https://datasetiq.com/api/public/series/CPIAUCSL/data?limit=100'',
                \<lparr>http_method = ''get'', muteHttpExceptions = True, headers = []\<rparr>),
               (''https://datasetiq.com/api/public/series/CPIAUCSL/data?limit=100'',
                \<lparr>http_method = ''get'', muteHttpExceptions = True, headers = []\<rparr>)],
      sleeps = [Fin 2000]\<rparr>)"
  using fetchSeries_retries_at_most_once
    [of "test_platform None
           (two_responses
              \<lparr>getResponseCode = 503, getContentText = ''Bad gateway'',
                getAllHeaders = [(''retry-after'', JStr ''2'')]\<rparr>
              \<lparr>getResponseCode = 429, getContentText = ''slow down'', getAllHeaders = []\<rparr>)
           Map.empty"
        "''CPIAUCSL''" "\<lparr>mode = ''latest'', freq = None, start = None, date = None\<rparr>"]
  by (simp add: status_of_def body_of_def headers_of_def test_platform_def two_responses_def
      error_return_def parseJson_def opt_chain_def mapError_def url_def request_def params_def
      push_if_def getApiKey_def BASE_URL_def SERIES_PATH_def SERIES_DATA_PATH_def
      normalizeHeaders_def computeRetryAfter_def)

lemmas run_defs =
  fetchSeries_def attempts_run status_of_def body_of_def headers_of_def final_attempt_def
  is_success_def retryable_def success_return_def error_return_def parseJson_def opt_chain_def
  test_platform_def two_responses_def always_def ok_response_def

section \<open>Backoff delay\<close>

text \<open>
  C4. With the header \<^verbatim>\<open>retry-after: 2\<close> (which \<^verbatim>\<open>Number\<close> reads as 2) the
  delay is 2000 ms. Without the header, or with one that neither \<^verbatim>\<open>Number\<close> nor
  \<^verbatim>\<open>Date.parse\<close> can read, it is \<open>500 * 2 ^ attempt\<close>, so 500 ms for attempt 0.
  With a header that is not a number but a date, it is the time left until that date
  when that is positive, and \<open>500 * 2 ^ attempt\<close> otherwise.
\<close>

theorem computeRetryAfter_delay:
  "(hs ''retry-after'' = Some ''2'' \<and> Number_of P ''2'' = Fin 2 \<longrightarrow>
      computeRetryAfter P hs attempt = Fin 2000)
   \<and> (hs ''retry-after'' = None \<longrightarrow> computeRetryAfter P hs attempt = Fin (500 * 2 ^ attempt))
   \<and> (hs ''retry-after'' = Some h \<and> Number_of P h = NaN \<and> Date_parse P h = NaN \<longrightarrow>
      computeRetryAfter P hs attempt = Fin (500 * 2 ^ attempt)
      \<and> computeRetryAfter P hs 0 = Fin 500)
   \<and> (hs ''retry-after'' = Some h \<and> h \<noteq> [] \<and> Number_of P h = NaN \<and> Date_parse P h = Fin t \<longrightarrow>
      computeRetryAfter P hs attempt =
        (if t - Date_now P > 0 then Fin (t - Date_now P) else Fin (500 * 2 ^ attempt)))"
  by (simp add: computeRetryAfter_def backoff_def Let_def)

theorem computeRetryAfter_delay_witness:
  "computeRetryAfter (test_platform None (always (ok_response [])) Map.empty)
      [''retry-after'' \<mapsto> ''2''] 0 = Fin 2000
   \<and> computeRetryAfter (test_platform None (always (ok_response [])) Map.empty) Map.empty 1 = Fin 1000
   \<and> computeRetryAfter (test_platform None (always (ok_response [])) Map.empty)
      [''retry-after'' \<mapsto> ''soon''] 0 = Fin 500
   \<and> computeRetryAfter
        ((test_platform None (always (ok_response [])) Map.empty)
           \<lparr>Date_parse := (\<lambda>s. Fin 1445412480000), Date_now := 1445412477000\<rparr>)
        [''retry-after'' \<mapsto> ''Wed, 21 Oct 2015 07:28:00 GMT''] 0 = Fin 3000"
  using
    computeRetryAfter_delay
      [of "[''retry-after'' \<mapsto> ''2'']" "test_platform None (always (ok_response [])) Map.empty"
          0 "''2''" 0]
    computeRetryAfter_delay
      [of "Map.empty" "test_platform None (always (ok_response [])) Map.empty" 1 "''2''" 0]
    computeRetryAfter_delay
      [of "[''retry-after'' \<mapsto> ''soon'']"
          "test_platform None (always (ok_response [])) Map.empty" 0 "''soon''" 0]
    computeRetryAfter_delay
      [of "[''retry-after'' \<mapsto> ''Wed, 21 Oct 2015 07:28:00 GMT'']"
          "(test_platform None (always (ok_response [])) Map.empty)
             \<lparr>Date_parse := (\<lambda>s. Fin 1445412480000), Date_now := 1445412477000\<rparr>"
          0 "''Wed, 21 Oct 2015 07:28:00 GMT''" 1445412480000]
  by (simp add: test_platform_def)

section \<open>Response normalization: scalars\<close>

lemma map_obs_rows:
  "\<forall>obs \<in> set observations. \<not> nullish obs \<Longrightarrow> map_obs observations = Inr (map to_row observations)"
  by (induction observations) auto

lemma second_to_row: "second (to_row obs) = get_prop obs ''value''"
  by (simp add: to_row_def index_def)

lemma index_last: "xs \<noteq> [] \<Longrightarrow> index (map f xs) (length xs - Suc 0) = f (last xs)"
  by (simp add: index_def last_conv_nth)

lemma index_zero: "xs \<noteq> [] \<Longrightarrow> index (map f xs) 0 = f (xs ! 0)"
  by (simp add: index_def)

text \<open>The data branch of the success path, for a body whose \<^verbatim>\<open>data\<close> is an array
  without \<^verbatim>\<open>null\<close> elements.\<close>

lemma transformedResponse_data:
  assumes "get_prop body ''data'' = JArr observations"
    and "\<forall>obs \<in> set observations. \<not> nullish obs"
    and "\<not> (md = ''meta'' \<and> truthy (get_prop body ''dataset''))"
  shows "transformedResponse md body =
     Inr (let t = JObj [(''data'', JArr (map to_row observations)),
                        (''seriesId'', get_prop body ''seriesId''),
                        (''status'', get_prop body ''status''),
                        (''message'', get_prop body ''message'')]
          in if md = ''latest'' \<and> observations \<noteq> []
               then set_prop t ''scalar'' (get_prop (last observations) ''value'')
             else if md = ''value'' \<and> observations \<noteq> []
               then set_prop t ''scalar'' (get_prop (observations ! 0) ''value'')
             else t)"
proof -
  from assms(1) have nn: "\<not> nullish body" by (cases body) auto
  show ?thesis
    using assms nn
    by (auto simp: transformedResponse_def map_obs_rows Let_def index_last index_zero second_to_row)
qed

text \<open>
  C3. Let the response that ends the fetch be a success whose \<^verbatim>\<open>data\<close> is a
  non-empty array of observations (none of them \<^verbatim>\<open>null\<close>). In mode
  \<^verbatim>\<open>latest\<close> the scalar of the result is the \<^verbatim>\<open>value\<close> of the last
  observation, in mode \<^verbatim>\<open>value\<close> it is the \<^verbatim>\<open>value\<close> of the observation at
  index 0; in both the observations are kept in the order received.
\<close>

theorem scalar_of_latest_and_value:
  "n = final_attempt P \<and> is_success (status_of P n) (body_of P n)
   \<and> get_prop (body_of P n) ''data'' = JArr observations \<and> observations \<noteq> []
   \<and> (\<forall>obs \<in> set observations. \<not> nullish obs) \<longrightarrow>
     (mode options = ''latest'' \<longrightarrow>
        (\<exists>t. fst (fetchSeries P seriesId options) = Inr \<lparr>response = t, errorMessage = JUndefined\<rparr>
           \<and> get_prop t ''scalar'' = get_prop (last observations) ''value''
           \<and> get_prop t ''data'' = JArr (map to_row observations)))
   \<and> (mode options = ''value'' \<longrightarrow>
        (\<exists>t. fst (fetchSeries P seriesId options) = Inr \<lparr>response = t, errorMessage = JUndefined\<rparr>
           \<and> get_prop t ''scalar'' = get_prop (observations ! 0) ''value''
           \<and> get_prop t ''data'' = JArr (map to_row observations)))"
  by (auto simp: fetchSeries_def attempts_outcome success_return_def transformedResponse_data)

text \<open>Two observations, oldest first: \<^verbatim>\<open>latest\<close> gives 300.1 and \<^verbatim>\<open>value\<close> gives
  290.\<close>

theorem scalar_of_latest_and_value_witness:
  "fst (fetchSeries
          (test_platform None (always (ok_response ''two observations''))
             [''two observations'' \<mapsto> two_observations])
          ''CPIAUCSL'' \<lparr>mode = ''latest'', freq = None, start = None, date = None\<rparr>) =
     Inr \<lparr>response = JObj [(''data'', JArr [JArr [JStr ''2023-01-01'', JNum (Fin 290)],
                                              JArr [JStr ''2024-01-01'', JNum (Fin 300.1)]]),
                            (''seriesId'', JUndefined), (''status'', JUndefined),
                            (''message'', JUndefined), (''scalar'', JNum (Fin 300.1))],
          errorMessage = JUndefined\<rparr>
   \<and> fst (fetchSeries
          (test_platform None (always (ok_response ''two observations''))
             [''two observations'' \<mapsto> two_observations])
          ''CPIAUCSL'' \<lparr>mode = ''value'', freq = None, start = None, date = Some ''2023-06-01''\<rparr>) =
     Inr \<lparr>response = JObj [(''data'', JArr [JArr [JStr ''2023-01-01'', JNum (Fin 290)],
                                              JArr [JStr ''2024-01-01'', JNum (Fin 300.1)]]),
                            (''seriesId'', JUndefined), (''status'', JUndefined),
                            (''message'', JUndefined), (''scalar'', JNum (Fin 290))],
          errorMessage = JUndefined\<rparr>"
  using
    scalar_of_latest_and_value
      [of 0 "test_platform None (always (ok_response ''two observations''))
               [''two observations'' \<mapsto> two_observations]"
          "[JObj [(''date'', JStr ''2023-01-01''), (''value'', JNum (Fin 290))],
            JObj [(''date'', JStr ''2024-01-01''), (''value'', JNum (Fin 300.1))]]"
          "\<lparr>mode = ''latest'', freq = None, start = None, date = None\<rparr>" "''CPIAUCSL''"]
    scalar_of_latest_and_value
      [of 0 "test_platform None (always (ok_response ''two observations''))
               [''two observations'' \<mapsto> two_observations]"
          "[JObj [(''date'', JStr ''2023-01-01''), (''value'', JNum (Fin 290))],
            JObj [(''date'', JStr ''2024-01-01''), (''value'', JNum (Fin 300.1))]]"
          "\<lparr>mode = ''value'', freq = None, start = None, date = Some ''2023-06-01''\<rparr>" "''CPIAUCSL''"]
  by (simp add: run_defs two_observations_def transformedResponse_def to_row_def index_def)

section \<open>Malformed and empty bodies\<close>

lemma transformedResponse_empty_object: "transformedResponse md (JObj []) = Inr (JObj [])"
  by (simp add: transformedResponse_def)

lemma is_success_empty_object: "is_success status (JObj []) \<longleftrightarrow> 200 \<le> status \<and> status < 300"
  by (auto simp add: is_success_def opt_chain_def)

text \<open>
  C7. When \<^verbatim>\<open>JSON.parse\<close> throws on a body, \<^verbatim>\<open>parseJson\<close> returns the empty
  object. So when the response that ends the fetch has a 2xx status and such a body,
  \<^verbatim>\<open>fetchSeries\<close> reports a success whose response is the empty object, and
  \<^verbatim>\<open>handleScalar\<close> (for a series id that passes normalization) raises
  "Value not available.".
\<close>

theorem malformed_body_is_empty_object:
  "(JSON_parse P text = None \<longrightarrow> parseJson P text = JObj [])
   \<and> (n = final_attempt P \<and> JSON_parse P (getContentText (UrlFetchApp_fetch P n)) = None
       \<and> 200 \<le> status_of P n \<and> status_of P n < 300 \<longrightarrow>
        fst (fetchSeries P series opts) = Inr \<lparr>response = JObj [], errorMessage = JUndefined\<rparr>
        \<and> (normalizeSeriesId P seriesId = Inr series \<longrightarrow>
             handleScalar P seriesId opts = Inl (Error (JStr ''Value not available.''))))"
proof -
  have a: "parseJson P text = JObj []" if "JSON_parse P text = None"
    using that by (simp add: parseJson_def)
  have b: "fst (fetchSeries P series opts) = Inr \<lparr>response = JObj [], errorMessage = JUndefined\<rparr>"
    if "n = final_attempt P" "JSON_parse P (getContentText (UrlFetchApp_fetch P n)) = None"
       "200 \<le> status_of P n" "status_of P n < 300" for series
  proof -
    from that(2) have "body_of P n = JObj []"
      by (simp add: body_of_def parseJson_def)
    with that show ?thesis
      by (simp add: fetchSeries_def attempts_outcome success_return_def
          transformedResponse_empty_object is_success_empty_object)
  qed
  have c: "handleScalar P seriesId opts = Inl (Error (JStr ''Value not available.''))"
    if "n = final_attempt P" "JSON_parse P (getContentText (UrlFetchApp_fetch P n)) = None"
       "200 \<le> status_of P n" "status_of P n < 300" "normalizeSeriesId P seriesId = Inr series"
    using that b [of series] by (simp add: handleScalar_def opt_chain_def)
  from a b c show ?thesis by blast
qed

text \<open>A 200 whose body is an HTML page.\<close>

theorem malformed_body_is_empty_object_witness:
  "parseJson (test_platform None (always (ok_response ''<html>'')) Map.empty) ''<html>'' = JObj []
   \<and> handleScalar (test_platform None (always (ok_response ''<html>'')) Map.empty)
        (JStr ''CPIAUCSL'') \<lparr>mode = ''latest'', freq = None, start = None, date = None\<rparr> =
      Inl (Error (JStr ''Value not available.''))"
  using malformed_body_is_empty_object
    [of "test_platform None (always (ok_response ''<html>'')) Map.empty" "''<html>''" 0
        "''CPIAUCSL''" "\<lparr>mode = ''latest'', freq = None, start = None, date = None\<rparr>"
        "JStr ''CPIAUCSL''"]
  by (simp add: run_defs normalizeSeriesId_def normalizeOptionalString_def)

lemma transformedResponse_no_data:
  "\<not> nullish body \<Longrightarrow> \<not> truthy (get_prop body ''data'') \<Longrightarrow> md \<noteq> ''meta'' \<Longrightarrow>
   transformedResponse md body = Inr body"
  by (simp add: transformedResponse_def)

text \<open>
  C10. Let the response that ends the fetch be a success whose \<^verbatim>\<open>data\<close> is the
  empty array (whatever else the body carries), or whose \<^verbatim>\<open>data\<close> is missing or
  falsy while the body carries no scalar. In the modes \<^verbatim>\<open>latest\<close>,
  \<^verbatim>\<open>value\<close> and \<^verbatim>\<open>yoy\<close> the result of \<^verbatim>\<open>fetchSeries\<close> has no scalar, and
  \<^verbatim>\<open>handleScalar\<close>, \<^verbatim>\<open>DSIQ_LATEST\<close>, \<^verbatim>\<open>DSIQ_YOY\<close> and (given a date)
  \<^verbatim>\<open>DSIQ_VALUE\<close> raise "Value not available." for a series id that passes
  normalization.
\<close>

theorem empty_observations_value_not_available:
  "n = final_attempt P \<and> is_success (status_of P n) (body_of P n)
   \<and> (get_prop (body_of P n) ''data'' = JArr []
       \<or> (\<not> nullish (body_of P n) \<and> \<not> truthy (get_prop (body_of P n) ''data'')
           \<and> get_prop (body_of P n) ''scalar'' = JUndefined))
   \<and> mode opts \<in> {''latest'', ''value'', ''yoy''} \<longrightarrow>
     (\<exists>t. fst (fetchSeries P series opts) = Inr \<lparr>response = t, errorMessage = JUndefined\<rparr>
         \<and> opt_chain t ''scalar'' = JUndefined)
     \<and> (normalizeSeriesId P seriesId = Inr series \<longrightarrow>
          handleScalar P seriesId opts = Inl (Error (JStr ''Value not available.''))
          \<and> DSIQ_LATEST P seriesId = Inl (Error (JStr ''Value not available.''))
          \<and> DSIQ_YOY P seriesId = Inl (Error (JStr ''Value not available.''))
          \<and> (normalizeDateInput P d = Inr (Some asOf) \<and> asOf \<noteq> [] \<longrightarrow>
               DSIQ_VALUE P seriesId d = Inl (Error (JStr ''Value not available.''))))"
proof (intro impI, elim conjE)
  assume n: "n = final_attempt P" and ok: "is_success (status_of P n) (body_of P n)"
    and body: "get_prop (body_of P n) ''data'' = JArr []
       \<or> (\<not> nullish (body_of P n) \<and> \<not> truthy (get_prop (body_of P n) ''data'')
           \<and> get_prop (body_of P n) ''scalar'' = JUndefined)"
    and md: "mode opts \<in> {''latest'', ''value'', ''yoy''}"
  have t: "\<exists>t. transformedResponse m (body_of P n) = Inr t \<and> opt_chain t ''scalar'' = JUndefined"
    if "m \<in> {''latest'', ''value'', ''yoy''}" for m
    using body
  proof
    assume "get_prop (body_of P n) ''data'' = JArr []"
    from transformedResponse_data [OF this, of m] that show ?thesis
      by (auto simp: opt_chain_def)
  next
    assume "\<not> nullish (body_of P n) \<and> \<not> truthy (get_prop (body_of P n) ''data'')
           \<and> get_prop (body_of P n) ''scalar'' = JUndefined"
    with that show ?thesis
      by (auto simp: transformedResponse_no_data opt_chain_def)
  qed
  have f: "\<exists>t. fst (fetchSeries P s o') = Inr \<lparr>response = t, errorMessage = JUndefined\<rparr>
         \<and> opt_chain t ''scalar'' = JUndefined"
    if "mode o' \<in> {''latest'', ''value'', ''yoy''}" for s o'
    using t [OF that] n ok
    by (auto simp: fetchSeries_def attempts_outcome success_return_def)
  have h: "handleScalar P seriesId o' = Inl (Error (JStr ''Value not available.''))"
    if "mode o' \<in> {''latest'', ''value'', ''yoy''}" "normalizeSeriesId P seriesId = Inr series"
    for o'
    using that(2) f [OF that(1), of series] by (auto simp: handleScalar_def)
  show "(\<exists>t. fst (fetchSeries P series opts) = Inr \<lparr>response = t, errorMessage = JUndefined\<rparr>
         \<and> opt_chain t ''scalar'' = JUndefined)
     \<and> (normalizeSeriesId P seriesId = Inr series \<longrightarrow>
          handleScalar P seriesId opts = Inl (Error (JStr ''Value not available.''))
          \<and> DSIQ_LATEST P seriesId = Inl (Error (JStr ''Value not available.''))
          \<and> DSIQ_YOY P seriesId = Inl (Error (JStr ''Value not available.''))
          \<and> (normalizeDateInput P d = Inr (Some asOf) \<and> asOf \<noteq> [] \<longrightarrow>
               DSIQ_VALUE P seriesId d = Inl (Error (JStr ''Value not available.''))))"
    using f [OF md, of series] h [OF md]
      h [of "\<lparr>mode = ''latest'', freq = None, start = None, date = None\<rparr>"]
      h [of "\<lparr>mode = ''yoy'', freq = None, start = None, date = None\<rparr>"]
      h [of "\<lparr>mode = ''value'', freq = None, start = None, date = Some asOf\<rparr>"]
    by (auto simp: DSIQ_LATEST_def DSIQ_YOY_def DSIQ_VALUE_def)
qed

text \<open>A 200 with an empty observation list, and a 200 with an empty object.\<close>

theorem empty_observations_value_not_available_witness:
  "DSIQ_LATEST
     (test_platform None (always (ok_response ''no observations''))
        [''no observations'' \<mapsto> no_observations]) (JStr ''CPIAUCSL'') =
     Inl (Error (JStr ''Value not available.''))
   \<and> DSIQ_YOY
     (test_platform None (always (ok_response ''no observations''))
        [''no observations'' \<mapsto> no_observations]) (JStr ''CPIAUCSL'') =
     Inl (Error (JStr ''Value not available.''))
   \<and> DSIQ_VALUE
     (test_platform None (always (ok_response ''no observations''))
        [''no observations'' \<mapsto> no_observations]) (JStr ''CPIAUCSL'') (JStr ''2023-06-01'') =
     Inl (Error (JStr ''Value not available.''))
   \<and> DSIQ_LATEST
     (test_platform None (always (ok_response ''empty object''))
        [''empty object'' \<mapsto> JObj []]) (JStr ''CPIAUCSL'') =
     Inl (Error (JStr ''Value not available.''))"
  using empty_observations_value_not_available
    [of 0 "test_platform None (always (ok_response ''no observations''))
             [''no observations'' \<mapsto> no_observations]"
        "\<lparr>mode = ''latest'', freq = None, start = None, date = None\<rparr>" "''CPIAUCSL''"
        "JStr ''CPIAUCSL''" "JStr ''2023-06-01''" "''2023-06-01''"]
   empty_observations_value_not_available
    [of 0 "test_platform None (always (ok_response ''empty object''))
             [''empty object'' \<mapsto> JObj []]"
        "\<lparr>mode = ''latest'', freq = None, start = None, date = None\<rparr>" "''CPIAUCSL''"
        "JStr ''CPIAUCSL''" "JStr ''2023-06-01''" "''2023-06-01''"]
  by (simp add: run_defs no_observations_def normalizeSeriesId_def normalizeOptionalString_def
      normalizeDateInput_def)

section \<open>Request building\<close>

text \<open>Every key that \<^verbatim>\<open>saveApiKey\<close> stores is a non-empty string, so a stored key
  is always truthy.\<close>

lemma saveApiKey_stores_nonempty:
  "saveApiKey P key = Inr P' \<Longrightarrow> \<exists>k. getApiKey P' = Some k \<and> k \<noteq> []"
  by (auto simp: saveApiKey_def getApiKey_def split: option.splits if_splits)

lemma join_snoc: "join sep (xs @ [x]) = concat (map (\<lambda>p. p @ sep) xs) @ x"
  by (induction sep xs rule: join.induct) auto

lemma join_snoc2: "join sep (xs @ ys @ [x]) = concat (map (\<lambda>p. p @ sep) (xs @ ys)) @ x"
  using join_snoc [of sep "xs @ ys" x] by simp

text \<open>
  C8. For a mode other than \<^verbatim>\<open>meta\<close>: with a stored key \<open>k\<close> (a non-empty string)
  the URL ends in the query parameter \<^verbatim>\<open>limit=1000\<close>, which follows the optional
  \<^verbatim>\<open>start\<close> and \<^verbatim>\<open>end\<close> parameters, and the only header is
  \<^verbatim>\<open>Authorization: Bearer k\<close>; with no stored key (or an empty one, which
  \<^verbatim>\<open>saveApiKey\<close> never stores) the parameter is \<^verbatim>\<open>limit=100\<close> and there is no
  header. Every call that \<^verbatim>\<open>fetchSeries\<close> issues carries this URL and these headers.
\<close>

theorem request_limit_and_authorization:
  "mode options \<noteq> ''meta'' \<longrightarrow>
     (getApiKey P = Some k \<and> k \<noteq> [] \<longrightarrow>
        url P seriesId options =
          BASE_URL @ SERIES_PATH @ encodeURIComponent P seriesId @ SERIES_DATA_PATH @ ''?'' @
          concat (map (\<lambda>p. p @ ''&'')
                    (push_if P ''start'' (start options) @ push_if P ''end'' (date options))) @
          ''limit=1000''
        \<and> headers (request P) = [(''Authorization'', ''Bearer '' @ k)])
   \<and> (getApiKey P = None \<or> getApiKey P = Some [] \<longrightarrow>
        url P seriesId options =
          BASE_URL @ SERIES_PATH @ encodeURIComponent P seriesId @ SERIES_DATA_PATH @ ''?'' @
          concat (map (\<lambda>p. p @ ''&'')
                    (push_if P ''start'' (start options) @ push_if P ''end'' (date options))) @
          ''limit=100''
        \<and> headers (request P) = [])
   \<and> set (calls (snd (fetchSeries P seriesId options))) = {(url P seriesId options, request P)}"
  by (auto simp: url_def params_def request_def join_snoc2 fetchSeries_def attempts_calls
      simp del: append_assoc)

theorem request_limit_and_authorization_witness:
  "url (test_platform (Some ''dsiq_key'') (always (ok_response [])) Map.empty) ''CPIAUCSL''
      \<lparr>mode = ''table'', freq = None, start = Some ''2020-01-01'', date = None\<rparr> =
     ''https://datasetiq.com/api/public/series/CPIAUCSL/data?start=2020-01-01&limit=1000''
   \<and> headers (request (test_platform (Some ''dsiq_key'') (always (ok_response [])) Map.empty)) =
     [(''Authorization'', ''Bearer dsiq_key'')]
   \<and> url (test_platform None (always (ok_response [])) Map.empty) ''CPIAUCSL''
      \<lparr>mode = ''table'', freq = None, start = Some ''2020-01-01'', date = None\<rparr> =
     ''https://datasetiq.com/api/public/series/CPIAUCSL/data?start=2020-01-01&limit=100''
   \<and> headers (request (test_platform None (always (ok_response [])) Map.empty)) = []"
  using
    request_limit_and_authorization
      [of "\<lparr>mode = ''table'', freq = None, start = Some ''2020-01-01'', date = None\<rparr>"
          "test_platform (Some ''dsiq_key'') (always (ok_response [])) Map.empty" "''dsiq_key''"
          "''CPIAUCSL''"]
    request_limit_and_authorization
      [of "\<lparr>mode = ''table'', freq = None, start = Some ''2020-01-01'', date = None\<rparr>"
          "test_platform None (always (ok_response [])) Map.empty" "''dsiq_key''" "''CPIAUCSL''"]
  by (simp add: test_platform_def getApiKey_def push_if_def BASE_URL_def SERIES_PATH_def
      SERIES_DATA_PATH_def)

section \<open>Table builder: order of the rows\<close>

text \<open>When every row has a time value, the comparator is the order "later date first"
  and the platform sort is the stable sort by the negated time value.\<close>

lemma positive_by_date:
  "row_time P a \<noteq> NaN \<Longrightarrow> row_time P b \<noteq> NaN \<Longrightarrow>
   positive (by_date P a b) \<longleftrightarrow> time_value (row_time P a) < time_value (row_time P b)"
  by (cases "row_time P a"; cases "row_time P b") (simp_all add: by_date_def)

lemma insert_sorted_insort:
  "row_time P x \<noteq> NaN \<Longrightarrow> \<forall>y \<in> set ys. row_time P y \<noteq> NaN \<Longrightarrow>
   insert_sorted (by_date P) x ys = insort_key (\<lambda>r. - time_value (row_time P r)) x ys"
  by (induction ys) (auto simp: positive_by_date)

lemma Array_sort_sort_key:
  "\<forall>y \<in> set rows. row_time P y \<noteq> NaN \<Longrightarrow>
   Array_sort (by_date P) rows = sort_key (\<lambda>r. - time_value (row_time P r)) rows"
  unfolding Array_sort_def
  by (induction rows) (simp_all add: insert_sorted_insort)

lemma ge_num_time:
  "row_time P a \<noteq> NaN \<Longrightarrow> row_time P b \<noteq> NaN \<Longrightarrow>
   ge_num (row_time P a) (row_time P b) \<longleftrightarrow> - time_value (row_time P a) \<le> - time_value (row_time P b)"
  by (cases "row_time P a"; cases "row_time P b") simp_all

lemma time_eq:
  "row_time P a \<noteq> NaN \<Longrightarrow> (row_time P a = Fin t) \<longleftrightarrow> (- time_value (row_time P a) = - t)"
  by (cases "row_time P a") simp_all

text \<open>The sort returns a permutation of its input, whatever the comparator.\<close>

lemma mset_insert_sorted: "mset (insert_sorted cmp x ys) = add_mset x (mset ys)"
  by (induction ys) auto

lemma mset_Array_sort: "mset (Array_sort cmp xs) = mset xs"
  unfolding Array_sort_def by (induction xs) (simp_all add: mset_insert_sorted)

text \<open>
  C2. For an array of rows none of which is \<^verbatim>\<open>null\<close> or \<^verbatim>\<open>undefined\<close>, the
  grid is the header row \<^verbatim>\<open>['Date', 'Value']\<close> followed by the same rows (as a
  multiset). When the dates \<^verbatim>\<open>new Date(row[0])\<close> all have a time value, every row's
  time is at least that of each later row, and rows of equal time keep their input order.
  For an input that is not an array the grid is the header row alone.
\<close>

theorem buildArrayResult_sorted:
  "((\<forall>r \<in> set rows. r \<noteq> JUndefined \<and> r \<noteq> JNull) \<longrightarrow>
      (\<exists>sorted. buildArrayResult P (JArr rows) = Inr (HEADER_ROW # sorted)
         \<and> mset sorted = mset rows
         \<and> ((\<forall>r \<in> set rows. row_time P r \<noteq> NaN) \<longrightarrow>
              sorted_wrt (\<lambda>a b. ge_num (row_time P a) (row_time P b)) sorted
              \<and> (\<forall>t. filter (\<lambda>r. row_time P r = t) sorted = filter (\<lambda>r. row_time P r = t) rows))))
   \<and> ((\<forall>xs. v \<noteq> JArr xs) \<longrightarrow> buildArrayResult P v = Inr [HEADER_ROW])"
proof -
  let ?key = "\<lambda>r. - time_value (row_time P r)"
  let ?out = "Array_sort (by_date P) rows"
  have b: "buildArrayResult P (JArr rows) = Inr (HEADER_ROW # ?out)"
    if ok: "\<forall>r \<in> set rows. r \<noteq> JUndefined \<and> r \<noteq> JNull"
  proof -
    from ok have f1: "filter (\<lambda>r. r \<noteq> JUndefined) rows = rows"
      and f2: "filter (\<lambda>r. r = JUndefined) rows = []"
      and nn: "JNull \<notin> set rows"
      by (auto simp: filter_id_conv filter_empty_conv)
    show ?thesis
      using nn by (simp add: buildArrayResult_def f1 f2)
  qed
  have m: "mset ?out = mset rows" by (rule mset_Array_sort)
  have s: "sorted_wrt (\<lambda>a b. ge_num (row_time P a) (row_time P b)) ?out
           \<and> (\<forall>t. filter (\<lambda>r. row_time P r = t) ?out = filter (\<lambda>r. row_time P r = t) rows)"
    if times: "\<forall>r \<in> set rows. row_time P r \<noteq> NaN"
  proof -
    have out: "?out = sort_key ?key rows"
      by (rule Array_sort_sort_key [OF times])
    have "sorted (map ?key (sort_key ?key rows))" by (rule sorted_sort_key)
    then have "sorted_wrt (\<lambda>a b. ?key a \<le> ?key b) (sort_key ?key rows)"
      by (simp add: sorted_map)
    then have s1: "sorted_wrt (\<lambda>a b. ge_num (row_time P a) (row_time P b)) (sort_key ?key rows)"
      by (rule sorted_wrt_mono_rel [rotated]) (use times in \<open>simp add: ge_num_time\<close>)
    have st: "filter (\<lambda>r. row_time P r = t) (sort_key ?key rows) = filter (\<lambda>r. row_time P r = t) rows"
      for t
    proof (cases t)
      case NaN
      with times show ?thesis by (simp add: filter_empty_conv [THEN iffD2])
    next
      case (Fin x)
      have "filter (\<lambda>r. row_time P r = t) (sort_key ?key rows) =
            filter (\<lambda>r. ?key r = - x) (sort_key ?key rows)"
        by (rule filter_cong) (use times Fin in \<open>auto simp: time_eq\<close>)
      also have "\<dots> = filter (\<lambda>r. ?key r = - x) rows" by (rule sort_key_stable)
      also have "\<dots> = filter (\<lambda>r. row_time P r = t) rows"
        by (rule filter_cong) (use times Fin in \<open>auto simp: time_eq\<close>)
      finally show ?thesis .
    qed
    from s1 st show ?thesis unfolding out by blast
  qed
  have c: "buildArrayResult P v = Inr [HEADER_ROW]" if "\<forall>xs. v \<noteq> JArr xs"
    using that by (cases v) (simp_all add: buildArrayResult_def)
  from b m s c show ?thesis by blast
qed

text \<open>Two rows given oldest first come out newest first under the header; the number 0
  gives the header alone.\<close>

theorem buildArrayResult_sorted_witness:
  "buildArrayResult (test_platform None (always (ok_response [])) Map.empty)
      (JArr [pair_form (''2023-01-01'', Fin 290), pair_form (''2024-01-01'', Fin 300.1)]) =
     Inr [JArr [JStr ''Date'', JStr ''Value''],
          JArr [JStr ''2024-01-01'', JNum (Fin 300.1)],
          JArr [JStr ''2023-01-01'', JNum (Fin 290)]]
   \<and> buildArrayResult (test_platform None (always (ok_response [])) Map.empty) (JNum (Fin 0)) =
     Inr [JArr [JStr ''Date'', JStr ''Value'']]"
  using buildArrayResult_sorted
    [of "[pair_form (''2023-01-01'', Fin 290), pair_form (''2024-01-01'', Fin 300.1)]"
        "test_platform None (always (ok_response [])) Map.empty" "JNum (Fin 0)"]
  by (simp add: buildArrayResult_def Array_sort_def by_date_def row_time_def pair_form_def
      index_def test_platform_def test_time_def HEADER_ROW_def)

section \<open>Response normalization: the two payload shapes\<close>

lemma get_prop_data_not_nullish: "get_prop body ''data'' = JArr xs \<Longrightarrow> \<not> nullish body"
  by (cases body) auto

lemma to_row_object_form: "to_row (object_form ob) = pair_form ob"
  by (simp add: to_row_def object_form_def pair_form_def)

lemma transformedResponse_data_field:
  assumes "get_prop body ''data'' = JArr observations"
    and "\<forall>obs \<in> set observations. \<not> nullish obs"
    and "\<not> (md = ''meta'' \<and> truthy (get_prop body ''dataset''))"
  shows "\<exists>t. transformedResponse md body = Inr t \<and> \<not> nullish t
           \<and> get_prop t ''data'' = JArr (map to_row observations)"
  unfolding transformedResponse_data [OF assms] by (simp add: Let_def)

text \<open>
  C6. Take any list of logical observations. Let the older \<^verbatim>\<open>fetchSeries\<close> end on a
  success whose \<^verbatim>\<open>data\<close> is the list in pair form, and the newer one on a success
  whose \<^verbatim>\<open>data\<close> is the list in object form (outside the branch that answers a
  \<^verbatim>\<open>meta\<close> request from the body's \<^verbatim>\<open>dataset\<close>). Then both succeed, and
  \<^verbatim>\<open>response.data\<close> is the list in pair form in both.
\<close>

theorem observations_same_for_both_shapes:
  "n1 = final_attempt P1 \<and> is_success (status_of P1 n1) (body_of P1 n1)
   \<and> get_prop (body_of P1 n1) ''data'' = JArr (map pair_form obs)
   \<and> n2 = final_attempt P2 \<and> is_success (status_of P2 n2) (body_of P2 n2)
   \<and> get_prop (body_of P2 n2) ''data'' = JArr (map object_form obs)
   \<and> \<not> (mode options = ''meta'' \<and> truthy (get_prop (body_of P2 n2) ''dataset'')) \<longrightarrow>
     (\<exists>r1 r2. fst (fetchSeries_v1 P1 seriesId options) = Inr r1
        \<and> fst (fetchSeries P2 seriesId options) = Inr r2
        \<and> errorMessage r1 = JUndefined \<and> errorMessage r2 = JUndefined
        \<and> opt_chain (response r1) ''data'' = JArr (map pair_form obs)
        \<and> opt_chain (response r2) ''data'' = JArr (map pair_form obs))"
proof (intro impI, elim conjE)
  assume n1: "n1 = final_attempt P1" and s1: "is_success (status_of P1 n1) (body_of P1 n1)"
    and d1: "get_prop (body_of P1 n1) ''data'' = JArr (map pair_form obs)"
    and n2: "n2 = final_attempt P2" and s2: "is_success (status_of P2 n2) (body_of P2 n2)"
    and d2: "get_prop (body_of P2 n2) ''data'' = JArr (map object_form obs)"
    and m: "\<not> (mode options = ''meta'' \<and> truthy (get_prop (body_of P2 n2) ''dataset''))"
  have old: "fst (fetchSeries_v1 P1 seriesId options) =
      Inr \<lparr>response = body_of P1 n1, errorMessage = JUndefined\<rparr>"
    using n1 s1 by (simp add: fetchSeries_v1_def attempts_outcome success_return_def)
  have old_data: "opt_chain (body_of P1 n1) ''data'' = JArr (map pair_form obs)"
    using d1 by (simp add: opt_chain_def get_prop_data_not_nullish)
  have "\<forall>ob \<in> set (map object_form obs). \<not> nullish ob"
    by (auto simp: object_form_def)
  from transformedResponse_data_field [OF d2 this m]
  obtain t where t: "transformedResponse (mode options) (body_of P2 n2) = Inr t" "\<not> nullish t"
    "get_prop t ''data'' = JArr (map to_row (map object_form obs))"
    by blast
  have new: "fst (fetchSeries P2 seriesId options) = Inr \<lparr>response = t, errorMessage = JUndefined\<rparr>"
    using n2 s2 t(1) by (simp add: fetchSeries_def attempts_outcome success_return_def)
  have new_data: "opt_chain t ''data'' = JArr (map pair_form obs)"
    using t(2,3) by (simp add: opt_chain_def to_row_object_form comp_def)
  from old old_data new new_data show
    "\<exists>r1 r2. fst (fetchSeries_v1 P1 seriesId options) = Inr r1
        \<and> fst (fetchSeries P2 seriesId options) = Inr r2
        \<and> errorMessage r1 = JUndefined \<and> errorMessage r2 = JUndefined
        \<and> opt_chain (response r1) ''data'' = JArr (map pair_form obs)
        \<and> opt_chain (response r2) ''data'' = JArr (map pair_form obs)"
    by simp
qed

text \<open>The same two observations in both shapes.\<close>

theorem observations_same_for_both_shapes_witness:
  "fst (fetchSeries_v1
          (test_platform None (always (ok_response ''two pairs'')) [''two pairs'' \<mapsto> two_pairs])
          ''CPIAUCSL'' \<lparr>mode = ''table'', freq = None, start = None, date = None\<rparr>) =
     Inr \<lparr>response = JObj [(''data'', JArr [JArr [JStr ''2023-01-01'', JNum (Fin 290)],
                                              JArr [JStr ''2024-01-01'', JNum (Fin 300.1)]])],
          errorMessage = JUndefined\<rparr>
   \<and> fst (fetchSeries
          (test_platform None (always (ok_response ''two observations''))
             [''two observations'' \<mapsto> two_observations])
          ''CPIAUCSL'' \<lparr>mode = ''table'', freq = None, start = None, date = None\<rparr>) =
     Inr \<lparr>response = JObj [(''data'', JArr [JArr [JStr ''2023-01-01'', JNum (Fin 290)],
                                              JArr [JStr ''2024-01-01'', JNum (Fin 300.1)]]),
                            (''seriesId'', JUndefined), (''status'', JUndefined),
                            (''message'', JUndefined)],
          errorMessage = JUndefined\<rparr>"
  using observations_same_for_both_shapes
    [of 0 "test_platform None (always (ok_response ''two pairs'')) [''two pairs'' \<mapsto> two_pairs]"
        "[(''2023-01-01'', Fin 290), (''2024-01-01'', Fin 300.1)]"
        0 "test_platform None (always (ok_response ''two observations''))
             [''two observations'' \<mapsto> two_observations]"
        "\<lparr>mode = ''table'', freq = None, start = None, date = None\<rparr>" "''CPIAUCSL''"]
  by (simp add: run_defs fetchSeries_v1_def two_pairs_def two_observations_def pair_form_def
      object_form_def transformedResponse_def to_row_def)

section \<open>The table entry point\<close>

lemma length_insert_sorted: "length (insert_sorted cmp x ys) = Suc (length ys)"
  by (induction ys) auto

lemma length_Array_sort: "length (Array_sort cmp xs) = length xs"
  unfolding Array_sort_def by (induction xs) (simp_all add: length_insert_sorted)

lemma buildArrayResult_rows:
  "buildArrayResult P (JArr (map to_row observations)) =
     Inr (HEADER_ROW # Array_sort (by_date P) (map to_row observations))"
proof -
  have f1: "filter (\<lambda>r. r \<noteq> JUndefined) (map to_row observations) = map to_row observations"
    by (induction observations) (simp_all add: to_row_def)
  have f2: "filter (\<lambda>r. r = JUndefined) (map to_row observations) = []"
    by (induction observations) (simp_all add: to_row_def)
  have nn: "JNull \<notin> set (map to_row observations)"
    by (auto simp: to_row_def)
  show ?thesis
    using nn by (simp add: buildArrayResult_def f1 f2 del: set_map)
qed

text \<open>
  C9. Let the series id and the start date pass normalization, let no key be stored, and
  let the response that ends the fetch be a success whose \<^verbatim>\<open>data\<close> is an array of
  at least 100 observations (none of them \<^verbatim>\<open>null\<close>). Then \<^verbatim>\<open>DSIQ\<close> returns
  the grid of \<^verbatim>\<open>buildArrayResult\<close> (the header and one row per observation)
  followed by three more rows: a blank row, the free-tier notice and the upgrade link.
\<close>

theorem DSIQ_appends_upgrade_notice:
  "normalizeSeriesId P seriesId = Inr series \<and> normalizeDateInput P startDate = Inr st
   \<and> \<not> truthy_str (getApiKey P)
   \<and> n = final_attempt P \<and> is_success (status_of P n) (body_of P n)
   \<and> get_prop (body_of P n) ''data'' = JArr observations
   \<and> (\<forall>obs \<in> set observations. \<not> nullish obs)
   \<and> length observations \<ge> 100 \<longrightarrow>
     (\<exists>grid. buildArrayResult P (JArr (map to_row observations)) = Inr grid
        \<and> length grid = 1 + length observations
        \<and> DSIQ P seriesId frequency startDate = Inr (grid @ [BLANK_ROW, NOTICE_ROW, UPGRADE_ROW])
        \<and> DSIQ P seriesId frequency startDate \<noteq> Inr grid)"
proof (intro impI, elim conjE)
  let ?opts = "\<lparr>mode = ''table'', freq = normalizeOptionalString P frequency, start = st, date = None\<rparr>"
  let ?grid = "HEADER_ROW # Array_sort (by_date P) (map to_row observations)"
  assume sid: "normalizeSeriesId P seriesId = Inr series"
    and sd: "normalizeDateInput P startDate = Inr st"
    and key: "\<not> truthy_str (getApiKey P)"
    and n: "n = final_attempt P" and ok: "is_success (status_of P n) (body_of P n)"
    and d: "get_prop (body_of P n) ''data'' = JArr observations"
    and nn: "\<forall>obs \<in> set observations. \<not> nullish obs"
    and len: "length observations \<ge> 100"
  have "\<not> (mode ?opts = ''meta'' \<and> truthy (get_prop (body_of P n) ''dataset''))" by simp
  from transformedResponse_data_field [OF d nn this]
  obtain t where t: "transformedResponse ''table'' (body_of P n) = Inr t" "\<not> nullish t"
    "get_prop t ''data'' = JArr (map to_row observations)"
    by auto
  have f: "fst (fetchSeries P series ?opts) = Inr \<lparr>response = t, errorMessage = JUndefined\<rparr>"
    using n ok t(1) by (simp add: fetchSeries_def attempts_outcome success_return_def)
  have g: "buildArrayResult P (JArr (map to_row observations)) = Inr ?grid"
    by (rule buildArrayResult_rows)
  have r: "DSIQ P seriesId frequency startDate = Inr (?grid @ [BLANK_ROW, NOTICE_ROW, UPGRADE_ROW])"
    using sid sd key f t(2,3) g len by (simp add: DSIQ_def Let_def opt_chain_def)
  have l: "length ?grid = 1 + length observations"
    by (simp add: length_Array_sort)
  from g l r show "\<exists>grid. buildArrayResult P (JArr (map to_row observations)) = Inr grid
        \<and> length grid = 1 + length observations
        \<and> DSIQ P seriesId frequency startDate = Inr (grid @ [BLANK_ROW, NOTICE_ROW, UPGRADE_ROW])
        \<and> DSIQ P seriesId frequency startDate \<noteq> Inr grid"
    by simp
qed

lemma insert_sorted_replicate:
  "\<not> positive (cmp x x) \<Longrightarrow> insert_sorted cmp x (replicate k x) = replicate (Suc k) x"
  by (cases k) simp_all

lemma Array_sort_replicate:
  "\<not> positive (cmp x x) \<Longrightarrow> Array_sort cmp (replicate k x) = replicate k x"
  unfolding Array_sort_def by (induction k) (simp_all add: insert_sorted_replicate)

text \<open>A hundred observations of one day and no stored key: the grid is the header, the
  hundred rows and the three extra rows.\<close>

theorem DSIQ_appends_upgrade_notice_witness:
  "DSIQ (test_platform None (always (ok_response ''hundred observations''))
           [''hundred observations'' \<mapsto> hundred_observations])
      (JStr ''CPIAUCSL'') JUndefined JUndefined =
     Inr (HEADER_ROW # replicate 100 (JArr [JStr ''2024-01-01'', JNum (Fin 1)])
          @ [BLANK_ROW, NOTICE_ROW, UPGRADE_ROW])"
proof -
  let ?P = "test_platform None (always (ok_response ''hundred observations''))
           [''hundred observations'' \<mapsto> hundred_observations]"
  let ?obs = "replicate 100 (object_form (''2024-01-01'', Fin 1))"
  have rows: "map to_row ?obs = replicate 100 (JArr [JStr ''2024-01-01'', JNum (Fin 1)])"
    by (simp add: to_row_def object_form_def)
  have np: "\<not> positive (by_date ?P (JArr [JStr ''2024-01-01'', JNum (Fin 1)])
                               (JArr [JStr ''2024-01-01'', JNum (Fin 1)]))"
    by (simp add: by_date_def row_time_def index_def test_platform_def test_time_def)
  have "buildArrayResult ?P (JArr (map to_row ?obs)) =
      Inr (HEADER_ROW # Array_sort (by_date ?P) (map to_row ?obs))"
    by (rule buildArrayResult_rows)
  then have grid: "buildArrayResult ?P (JArr (map to_row ?obs)) =
      Inr (HEADER_ROW # replicate 100 (JArr [JStr ''2024-01-01'', JNum (Fin 1)]))"
    unfolding rows
      Array_sort_replicate [of "by_date ?P" "JArr [JStr ''2024-01-01'', JNum (Fin 1)]" 100, OF np] .
  have hyp: "normalizeSeriesId ?P (JStr ''CPIAUCSL'') = Inr ''CPIAUCSL'' \<and> normalizeDateInput ?P JUndefined = Inr None
   \<and> \<not> truthy_str (getApiKey ?P)
   \<and> 0 = final_attempt ?P \<and> is_success (status_of ?P 0) (body_of ?P 0)
   \<and> get_prop (body_of ?P 0) ''data'' = JArr ?obs
   \<and> (\<forall>obs \<in> set ?obs. \<not> nullish obs)
   \<and> length ?obs \<ge> 100"
    by (simp add: run_defs normalizeSeriesId_def normalizeOptionalString_def normalizeDateInput_def
        getApiKey_def hundred_observations_def object_form_def)
  from DSIQ_appends_upgrade_notice [of ?P "JStr ''CPIAUCSL''" "''CPIAUCSL''" JUndefined None 0 ?obs JUndefined] hyp grid
  show ?thesis by auto
qed

end
